theory Spec2Isabelle
  imports Complex_Main
begin

section \<open>Values of the host language\<close>

text \<open>
  The library of \<^verbatim>\<open>src/index.ts\<close> handles three kinds of host values: JSON values
  (the \<^verbatim>\<open>details\<close> of an error, the parsed body of a response), strings, and the
  \<^verbatim>\<open>Response\<close> objects of the Fetch API. A JSON object is a finite mapping from
  property names to values; key order is not observable through the library (the tests
  compare bodies with \<^verbatim>\<open>toEqual\<close>), so an object is a map.
\<close>

datatype json =
    JNull
  | JBool bool
  | JNum rat
  | JStr string
  | JArr "json list"
  | JObj "string \<Rightarrow> json option"

text \<open>JavaScript's \<^verbatim>\<open>ToBoolean\<close> and \<^verbatim>\<open>typeof\<close> on JSON values.\<close>

fun truthy :: "json \<Rightarrow> bool" where
  "truthy JNull = False"
| "truthy (JBool b) = b"
| "truthy (JNum n) = (n \<noteq> 0)"
| "truthy (JStr s) = (s \<noteq> [])"
| "truthy (JArr xs) = True"
| "truthy (JObj m) = True"

fun typeof :: "json \<Rightarrow> string" where
  "typeof JNull = ''object''"
| "typeof (JBool b) = ''boolean''"
| "typeof (JNum n) = ''number''"
| "typeof (JStr s) = ''string''"
| "typeof (JArr xs) = ''object''"
| "typeof (JObj m) = ''object''"

text \<open>
  Decimal rendering of an integer, as a template literal \<^verbatim>\<open>${status}\<close> and the index
  keys of an array produce it.
\<close>

definition digit :: "nat \<Rightarrow> char" where
  "digit d = ''0123456789'' ! d"

fun decimal :: "nat \<Rightarrow> string" where
  "decimal n = (if 10 \<le> n then decimal (n div 10) else []) @ [digit (n mod 10)]"

definition Number_toString :: "int \<Rightarrow> string" where
  "Number_toString i = (if 0 \<le> i then decimal (nat i) else CHR ''-'' # decimal (nat (- i)))"

text \<open>
  The own enumerable properties of a value: what object spread \<^verbatim>\<open>{...v}\<close> copies and
  what \<^verbatim>\<open>'k' in v\<close> and \<^verbatim>\<open>v.k\<close> find for a data property. An array has its
  elements under the index keys \<^verbatim>\<open>"0", "1", ...\<close>, a string its characters, and
  numbers, booleans and \<^verbatim>\<open>null\<close> have none.
\<close>

fun own_properties :: "json \<Rightarrow> (string \<rightharpoonup> json)" where
  "own_properties (JObj m) = m"
| "own_properties (JArr xs) = map_of (zip (map decimal [0..<length xs]) xs)"
| "own_properties (JStr s) = map_of (zip (map decimal [0..<length s]) (map (\<lambda>c. JStr [c]) s))"
| "own_properties v = Map.empty"

text \<open>
  What a rejected promise carries: the \<^verbatim>\<open>Error\<close> the library throws, with its message,
  or a \<^verbatim>\<open>TypeError\<close> or \<^verbatim>\<open>RangeError\<close> of the host (their messages differ between
  hosts and are left out).
\<close>

datatype error = Error string | TypeError | RangeError

subsection \<open>Header lists\<close>

text \<open>
  The \<^verbatim>\<open>Headers\<close> of the Fetch standard: a list of name and value pairs in the order
  they were appended. A name is an HTTP token, a value has its surrounding HTTP
  whitespace removed and holds no NUL, LF or CR; \<^verbatim>\<open>append\<close> throws a \<^verbatim>\<open>TypeError\<close> for
  anything else. Names match without regard to the case of ASCII letters, and \<^verbatim>\<open>get\<close>
  joins the values of all matching pairs with a comma and a space. The repository's
  tests read a \<^verbatim>\<open>Set-Cookie\<close> header back from a response, so the host keeps that name
  like any other.
\<close>

definition lowercase_byte :: "char \<Rightarrow> char" where
  "lowercase_byte c =
     (case map_of (zip ''ABCDEFGHIJKLMNOPQRSTUVWXYZ'' ''abcdefghijklmnopqrstuvwxyz'') c of
        Some l \<Rightarrow> l
      | None \<Rightarrow> c)"

definition byte_lowercase :: "string \<Rightarrow> string" where
  "byte_lowercase n = map lowercase_byte n"

definition is_token_char :: "char \<Rightarrow> bool" where
  "is_token_char c =
     (c \<in> set ''ABCDEFGHIJKLMNOPQRSTUVWXYZabcdefghijklmnopqrstuvwxyz0123456789!#$%&*+-.^_|~''
      \<or> c = CHR 0x27 \<or> c = CHR 0x60)"

definition is_header_name :: "string \<Rightarrow> bool" where
  "is_header_name n = (n \<noteq> [] \<and> list_all is_token_char n)"

definition is_http_whitespace :: "char \<Rightarrow> bool" where
  "is_http_whitespace c = (c = CHR 0x09 \<or> c = CHR 0x0A \<or> c = CHR 0x0D \<or> c = CHR 0x20)"

definition normalize_value :: "string \<Rightarrow> string" where
  "normalize_value v =
     rev (dropWhile is_http_whitespace (rev (dropWhile is_http_whitespace v)))"

text \<open>A normalized value has no surrounding whitespace left; what remains to check are
  the bytes it may not hold.\<close>

definition is_header_value :: "string \<Rightarrow> bool" where
  "is_header_value v = list_all (\<lambda>c. c \<noteq> CHR 0x00 \<and> c \<noteq> CHR 0x0A \<and> c \<noteq> CHR 0x0D) v"

definition Headers_append ::
  "(string \<times> string) list \<Rightarrow> string \<Rightarrow> string \<Rightarrow> error + (string \<times> string) list" where
  "Headers_append hs n v =
     (let v' = normalize_value v
      in if is_header_name n \<and> is_header_value v' then Inr (hs @ [(n, v')]) else Inl TypeError)"

text \<open>Filling a header list from a record: one \<^verbatim>\<open>append\<close> for each entry, in order.\<close>

fun Headers_fill ::
  "(string \<times> string) list \<Rightarrow> (string \<times> string) list \<Rightarrow> error + (string \<times> string) list" where
  "Headers_fill hs [] = Inr hs"
| "Headers_fill hs ((n, v) # entries) =
     (case Headers_append hs n v of
        Inl err \<Rightarrow> Inl err
      | Inr hs' \<Rightarrow> Headers_fill hs' entries)"

definition matching :: "string \<Rightarrow> (string \<times> string) list \<Rightarrow> (string \<times> string) list" where
  "matching n hs = filter (\<lambda>(k, v). byte_lowercase k = byte_lowercase n) hs"



subsection \<open>Responses\<close>

text \<open>
  A \<^verbatim>\<open>Response\<close>: status, reason phrase, header list and body. The body is the text a
  read delivers, or a read that fails (an I/O error of the transport); a response
  without a body reads as the empty text. \<^verbatim>\<open>bodyUsed\<close> says that the body has been
  read, \<^verbatim>\<open>locked\<close> that a reader holds its stream; in either state the body is unusable:
  \<^verbatim>\<open>clone()\<close> throws a \<^verbatim>\<open>TypeError\<close>, and \<^verbatim>\<open>json()\<close> and \<^verbatim>\<open>text()\<close> reject. On a
  usable body \<^verbatim>\<open>clone()\<close> gives a second response with the same content, \<^verbatim>\<open>json()\<close>
  reads the text and parses it with the host's \<^verbatim>\<open>JSON.parse\<close>, and \<^verbatim>\<open>text()\<close> reads the
  text; both reject (\<open>None\<close>) when the read fails, \<^verbatim>\<open>json()\<close> also when the text is not
  JSON. A read uses up the body it reads; \<^verbatim>\<open>fromResponse\<close> reads the original once and
  the clone once and returns neither. \<^verbatim>\<open>JSON.parse\<close> and \<^verbatim>\<open>JSON.stringify\<close> are
  parameters of the operations that call them.
\<close>

datatype body_source = Text string | ReadError

record response =
  status :: int
  statusText :: string
  headers :: "(string \<times> string) list"
  body :: body_source
  bodyUsed :: bool
  locked :: bool

definition unusable :: "response \<Rightarrow> bool" where
  "unusable r = (bodyUsed r \<or> locked r)"

definition Response_clone :: "response \<Rightarrow> error + response" where
  "Response_clone r = (if unusable r then Inl TypeError else Inr r)"

definition Response_json :: "(string \<Rightarrow> json option) \<Rightarrow> response \<Rightarrow> json option" where
  "Response_json JSON_parse r =
     (if unusable r then None
      else case body r of Text t \<Rightarrow> JSON_parse t | ReadError \<Rightarrow> None)"

definition Response_text :: "response \<Rightarrow> string option" where
  "Response_text r =
     (if unusable r then None
      else case body r of Text t \<Rightarrow> Some t | ReadError \<Rightarrow> None)"

text \<open>
  \<^verbatim>\<open>new Response(body, { status, headers })\<close> with a string body, as the Fetch standard
  initializes it. The status is converted to an unsigned 16-bit integer and must lie in
  \<open>[200, 599]\<close> (\<^verbatim>\<open>RangeError\<close>); the header list is filled from the record; a body is
  refused for the null body statuses (\<^verbatim>\<open>TypeError\<close>); and a string body adds its own
  \<^verbatim>\<open>content-type\<close> when the list has none.
\<close>

definition new_Response ::
  "string \<Rightarrow> int \<Rightarrow> (string \<times> string) list \<Rightarrow> error + response" where
  "new_Response b s init_headers =
     (let s' = s mod 65536
      in if s' < 200 \<or> 599 < s' then Inl RangeError
         else case Headers_fill [] init_headers of
                Inl err \<Rightarrow> Inl err
              | Inr hs \<Rightarrow>
                  if s' \<in> {101, 103, 204, 205, 304} then Inl TypeError
                  else Inr \<lparr>status = s',
                            statusText = [],
                            headers =
                              (if matching ''content-type'' hs = []
                               then hs @ [(''content-type'', ''text/plain;charset=UTF-8'')]
                               else hs),
                            body = Text b,
                            bodyUsed = False,
                            locked = False\<rparr>)"

section \<open>The error classes\<close>

text \<open>
  \<^verbatim>\<open>class HttpError extends Error\<close>: the fields \<^verbatim>\<open>name\<close> and \<^verbatim>\<open>message\<close> of
  \<^verbatim>\<open>Error\<close>, and \<^verbatim>\<open>status\<close>, \<^verbatim>\<open>details\<close>, \<^verbatim>\<open>headers\<close>. An optional parameter that is
  \<^verbatim>\<open>undefined\<close> or \<^verbatim>\<open>null\<close> is \<open>None\<close>. \<^verbatim>\<open>details\<close> is declared
  \<^verbatim>\<open>Record<string, any>\<close>, but \<^verbatim>\<open>fromResponse\<close> stores whatever \<^verbatim>\<open>json()\<close> returned
  there, so the field holds a JSON value. \<^verbatim>\<open>headers\<close> is an object of strings; the order
  of its entries shows in the header list of a response, so it is the list of its
  entries in property order, each key once. (Array index keys come first in that order
  whenever they were written; the order of a header list shows only between names equal
  up to letter case, and an index key has no other spelling.)
\<close>

record HttpError =
  name :: string
  message :: string
  status :: int
  details :: "json option"
  headers :: "(string \<times> string) list option"

text \<open>
  The constructor sets \<^verbatim>\<open>this.name = this.constructor.name\<close>: the name of the class
  being instantiated, which is a parameter of the constructor's body.
\<close>

datatype constructor = HttpError_class | MissingFieldError_class

fun constructor_name :: "constructor \<Rightarrow> string" where
  "constructor_name HttpError_class = ''HttpError''"
| "constructor_name MissingFieldError_class = ''MissingFieldError''"

definition HttpError_constructor ::
  "constructor \<Rightarrow> int \<Rightarrow> string \<Rightarrow> json option \<Rightarrow> (string \<times> string) list option \<Rightarrow> HttpError" where
  "HttpError_constructor c s m d h =
     \<lparr>name = constructor_name c, message = m, status = s, details = d, headers = h\<rparr>"

definition new_HttpError ::
  "int \<Rightarrow> string \<Rightarrow> json option \<Rightarrow> (string \<times> string) list option \<Rightarrow> HttpError" where
  "new_HttpError s m d h = HttpError_constructor HttpError_class s m d h"

definition new_MissingFieldError :: "string \<Rightarrow> (string \<times> string) list option \<Rightarrow> HttpError" where
  "new_MissingFieldError fieldName h =
     HttpError_constructor MissingFieldError_class 400 (''Missing required field: '' @ fieldName)
       (Some (JObj [''field'' \<mapsto> JStr fieldName])) h"

subsection \<open>toResponse\<close>

text \<open>
  The body object \<^verbatim>\<open>{ error: this.message, ...(this.details || {}) }\<close> and the header
  record \<^verbatim>\<open>{ 'content-type': 'application/json', ...(this.headers || {}) }\<close>: in both, the
  spread entries are written after the literal one. Writing a key the object has
  replaces its value where it stands; a new key goes to the end.
\<close>

definition toResponse_body :: "HttpError \<Rightarrow> (string \<rightharpoonup> json)" where
  "toResponse_body e =
     [''error'' \<mapsto> JStr (message e)] ++
     own_properties
       (case details e of
          Some d \<Rightarrow> if truthy d then d else JObj Map.empty
        | None \<Rightarrow> JObj Map.empty)"

fun set_property :: "string \<Rightarrow> string \<Rightarrow> (string \<times> string) list \<Rightarrow> (string \<times> string) list" where
  "set_property k v [] = [(k, v)]"
| "set_property k v ((k', v') # ps) =
     (if k' = k then (k, v) # ps else (k', v') # set_property k v ps)"

definition spread :: "(string \<times> string) list \<Rightarrow> (string \<times> string) list \<Rightarrow> (string \<times> string) list" where
  "spread obj entries = fold (\<lambda>(k, v). set_property k v) entries obj"

definition toResponse_headers :: "HttpError \<Rightarrow> (string \<times> string) list" where
  "toResponse_headers e =
     spread [(''content-type'', ''application/json'')]
       (case HttpError.headers e of Some h \<Rightarrow> h | None \<Rightarrow> [])"

definition toResponse :: "(json \<Rightarrow> string) \<Rightarrow> HttpError \<Rightarrow> error + response" where
  "toResponse JSON_stringify e =
     new_Response (JSON_stringify (JObj (toResponse_body e)))
       (HttpError.status e) (toResponse_headers e)"

subsection \<open>fromResponse\<close>

text \<open>
  The static \<^verbatim>\<open>fromResponse\<close>. A rejected promise is \<open>Inl\<close>. \<^verbatim>\<open>response.clone()\<close>
  stands outside both \<^verbatim>\<open>try\<close> blocks, so what it throws rejects the promise. The
  \<^verbatim>\<open>console.error\<close> of the inner \<^verbatim>\<open>catch\<close> writes to the console only; the branch
  continues to the \<^verbatim>\<open>return\<close> with the message unchanged.
\<close>

definition fromResponse :: "(string \<Rightarrow> json option) \<Rightarrow> response \<Rightarrow> error + HttpError" where
  "fromResponse JSON_parse r =
     (let s = response.status r in
      if 200 \<le> s \<and> s < 300 then
        Inl (Error (''Cannot create HttpError from a successful response (status: ''
                    @ Number_toString s @ '')''))
      else
        let m = (if statusText r \<noteq> [] then statusText r else ''Unknown Error'')
        in case Response_clone r of
             Inl err \<Rightarrow> Inl err
           | Inr responseClone \<Rightarrow>
               (case Response_json JSON_parse r of
                  Some b \<Rightarrow>
                    if truthy b \<and> typeof b = ''object'' then
                      Inr (new_HttpError s
                             (case own_properties b ''error'' of
                                Some (JStr msg) \<Rightarrow> msg
                              | _ \<Rightarrow> m)
                             (Some b) None)
                    else Inr (new_HttpError s m None None)
                | None \<Rightarrow>
                    (case Response_text responseClone of
                       Some t \<Rightarrow> Inr (new_HttpError s (if t \<noteq> [] then t else m) None None)
                     | None \<Rightarrow> Inr (new_HttpError s m None None))))"

section \<open>Facts about the host functions\<close>

declare decimal.simps [simp del]

lemma digit_is_decimal: "d < 10 \<Longrightarrow> digit d \<in> set ''0123456789''"
  unfolding digit_def by (rule nth_mem) simp

lemma decimal_digits: "set (decimal n) \<subseteq> set ''0123456789''"
proof (induction n rule: decimal.induct)
  case (1 n)
  have "n mod 10 < 10"
    by simp
  then have last: "digit (n mod 10) \<in> set ''0123456789''"
    by (rule digit_is_decimal)
  show ?case
  proof (cases "10 \<le> n")
    case True
    with "1.IH" last show ?thesis
      by (subst decimal.simps) simp
  next
    case False
    with last show ?thesis
      by (subst decimal.simps) simp
  qed
qed

lemma error_is_no_index: "''error'' \<noteq> decimal n"
proof
  assume "''error'' = decimal n"
  then have "CHR ''e'' \<in> set (decimal n)"
    by (metis list.set_intros(1))
  with decimal_digits [of n] show False
    by auto
qed

lemma index_keys_no_error: "map_of (zip (map decimal ks) vs) ''error'' = None"
proof -
  have "''error'' \<notin> set (map decimal ks)"
    using error_is_no_index by auto
  then have "''error'' \<notin> fst ` set (zip (map decimal ks) vs)"
    by (auto dest: set_zip_leftD)
  then show ?thesis
    by (simp add: map_of_eq_None_iff)
qed

lemma array_has_no_error_property: "own_properties (JArr xs) ''error'' = None"
  by (simp add: index_keys_no_error)

text \<open>
  The status rendered into the error message of \<^verbatim>\<open>fromResponse\<close> lies in \<open>[200, 300)\<close>:
  its rendering is the digit 2 followed by its tens and units digits.
\<close>

lemma decimal_three_digits:
  assumes "100 \<le> n" and "n < 1000"
  shows "decimal n = [digit (n div 100), digit (n div 10 mod 10), digit (n mod 10)]"
proof -
  from assms have small: "n div 100 < 10" and big: "10 \<le> n div 10" "10 \<le> n"
    by simp_all
  from small have hundreds: "decimal (n div 100) = [digit (n div 100)]"
    by (subst decimal.simps) simp
  have "n div 10 div 10 = n div 100"
    by (simp add: div_mult2_eq [symmetric])
  with hundreds have tens: "decimal (n div 10) = [digit (n div 100), digit (n div 10 mod 10)]"
    using big by (subst decimal.simps) simp
  with big show ?thesis
    by (subst decimal.simps) simp
qed

lemma Number_toString_success_status:
  assumes "200 \<le> s" and "s < 300"
  shows "Number_toString s = [CHR ''2'', digit (nat s div 10 mod 10), digit (nat s mod 10)]"
proof -
  from assms have "nat s div 100 = 2"
    by simp
  moreover have "digit 2 = CHR ''2''"
    by (simp add: digit_def)
  ultimately show ?thesis
    using assms decimal_three_digits [of "nat s"] by (simp add: Number_toString_def)
qed

subsection \<open>Object spread\<close>


lemma set_property_keeps_keys:
  "x \<in> fst ` set ps \<Longrightarrow> x \<in> fst ` set (set_property k v ps)"
proof (induction ps)
  case Nil
  then show ?case by simp
next
  case (Cons p ps)
  obtain k' v' where p: "p = (k', v')"
    by (cases p)
  show ?case
  proof (cases "k' = k")
    case True
    with Cons.prems p show ?thesis
      by auto
  next
    case False
    with Cons p show ?thesis
      by auto
  qed
qed

lemma spread_keeps_keys: "fst ` set obj \<subseteq> fst ` set (spread obj entries)"
  unfolding spread_def
proof (induction entries arbitrary: obj)
  case Nil
  show ?case by simp
next
  case (Cons kv entries)
  obtain k v where kv: "kv = (k, v)"
    by (cases kv)
  have "fst ` set obj \<subseteq> fst ` set (set_property k v obj)"
    using set_property_keeps_keys [of _ obj k v] by blast
  also have "\<dots> \<subseteq> fst ` set (fold (\<lambda>(k, v). set_property k v) entries (set_property k v obj))"
    by (rule Cons.IH)
  finally show ?case
    by (simp add: kv)
qed



lemma toResponse_headers_has_content_type:
  "''content-type'' \<in> fst ` set (toResponse_headers e)"
  using spread_keeps_keys [of "[(''content-type'', ''application/json'')]"]
  by (auto simp add: toResponse_headers_def)

subsection \<open>Header lists\<close>

lemma content_type_is_header_name: "is_header_name ''content-type''"
  by (simp add: is_header_name_def is_token_char_def)


lemma Headers_fill_result:
  "Headers_fill hs entries = Inr hs' \<Longrightarrow>
     hs' = hs @ map (\<lambda>(k, v). (k, normalize_value v)) entries"
proof (induction hs entries rule: Headers_fill.induct)
  case (1 hs)
  then show ?case by simp
next
  case (2 hs n v entries)
  show ?case
  proof (cases "is_header_name n \<and> is_header_value (normalize_value v)")
    case True
    then have app: "Headers_append hs n v = Inr (hs @ [(n, normalize_value v)])"
      by (simp add: Headers_append_def)
    with "2.prems" have "Headers_fill (hs @ [(n, normalize_value v)]) entries = Inr hs'"
      by simp
    with "2.IH" [OF app] show ?thesis
      by simp
  next
    case False
    then have "Headers_append hs n v = Inl TypeError"
      by (auto simp add: Headers_append_def)
    with "2.prems" show ?thesis
      by simp
  qed
qed

lemma matching_normalized:
  "matching n (map (\<lambda>(k, v). (k, normalize_value v)) hs) =
     map (\<lambda>(k, v). (k, normalize_value v)) (matching n hs)"
  by (induction hs) (auto simp add: matching_def)

lemma matching_present:
  "n \<in> fst ` set hs \<Longrightarrow> matching n hs \<noteq> []"
  by (auto simp add: matching_def filter_empty_conv)

subsection \<open>Responses\<close>

lemma new_Response_result:
  assumes "new_Response b s init_headers = Inr r"
  shows "response.status r = s mod 65536 \<and> 200 \<le> s mod 65536 \<and> s mod 65536 \<le> 599 \<and>
         statusText r = [] \<and> body r = Text b \<and> \<not> unusable r \<and>
         response.headers r =
           (let hs = map (\<lambda>(k, v). (k, normalize_value v)) init_headers
            in if matching ''content-type'' hs = []
               then hs @ [(''content-type'', ''text/plain;charset=UTF-8'')] else hs)"
proof (cases "Headers_fill [] init_headers")
  case (Inl err)
  with assms show ?thesis
    by (simp add: new_Response_def Let_def split: if_splits)
next
  case (Inr hs)
  then have "hs = map (\<lambda>(k, v). (k, normalize_value v)) init_headers"
    using Headers_fill_result [of "[]" init_headers hs] by simp
  with assms Inr show ?thesis
    by (auto simp add: new_Response_def Let_def unusable_def split: if_splits)
qed

lemma toResponse_result:
  assumes "toResponse str e = Inr r"
  shows "response.status r = HttpError.status e mod 65536"
    and "statusText r = []"
    and "body r = Text (str (JObj (toResponse_body e)))"
    and "\<not> unusable r"
    and "response.headers r = map (\<lambda>(k, v). (k, normalize_value v)) (toResponse_headers e)"
proof -
  note res = new_Response_result [OF assms [unfolded toResponse_def]]
  from res show "response.status r = HttpError.status e mod 65536"
    and "statusText r = []"
    and "body r = Text (str (JObj (toResponse_body e)))"
    and "\<not> unusable r"
    by simp_all
  have "matching ''content-type'' (toResponse_headers e) \<noteq> []"
    using toResponse_headers_has_content_type by (rule matching_present)
  then have "matching ''content-type''
      (map (\<lambda>(k, v). (k, normalize_value v)) (toResponse_headers e)) \<noteq> []"
    by (simp add: matching_normalized)
  with res show "response.headers r =
      map (\<lambda>(k, v). (k, normalize_value v)) (toResponse_headers e)"
    by (simp add: Let_def)
qed

text \<open>
  Without headers of its own, an error is serialized whenever its status is one the
  constructor takes with a body.
\<close>

lemma toResponse_without_headers:
  assumes "HttpError.headers e = None"
    and "200 \<le> HttpError.status e" and "HttpError.status e \<le> 599"
    and "HttpError.status e \<notin> {204, 205, 304}"
  shows "\<exists>r. toResponse str e = Inr r"
proof -
  have "toResponse_headers e = [(''content-type'', ''application/json'')]"
    using assms(1) by (simp add: toResponse_headers_def spread_def)
  moreover have "Headers_fill [] [(''content-type'', ''application/json'')] =
      Inr [(''content-type'', ''application/json'')]"
    by (simp add: Headers_append_def content_type_is_header_name normalize_value_def
        is_http_whitespace_def is_header_value_def)
  moreover from assms(2,3) have "HttpError.status e mod 65536 = HttpError.status e"
    by simp
  ultimately show ?thesis
    using assms(2-4) by (simp add: toResponse_def new_Response_def Let_def)
qed

lemmas new_defs = new_HttpError_def new_MissingFieldError_def HttpError_constructor_def

lemmas read_defs = Response_json_def Response_text_def Response_clone_def unusable_def


subsection \<open>The branches of \<^verbatim>\<open>fromResponse\<close>\<close>

text \<open>
  What \<^verbatim>\<open>fromResponse\<close> returns: on a success status; on a body that cannot be cloned;
  and, once the clone is made, by the outcome of \<^verbatim>\<open>response.json()\<close>: a value that
  passes the guard \<^verbatim>\<open>body && typeof body === 'object'\<close>, a value that does not, and a
  rejection.
\<close>

lemma fromResponse_success_status:
  assumes "200 \<le> response.status r" and "response.status r < 300"
  shows "fromResponse p r =
           Inl (Error (''Cannot create HttpError from a successful response (status: ''
                       @ Number_toString (response.status r) @ '')''))"
  using assms by (simp add: fromResponse_def)

lemma fromResponse_unusable_body:
  assumes "\<not> (200 \<le> response.status r \<and> response.status r < 300)"
    and "unusable r"
  shows "fromResponse p r = Inl TypeError"
  using assms by (auto simp add: fromResponse_def Response_clone_def Let_def)

lemma json_read_usable: "Response_json p r = Some b \<Longrightarrow> \<not> unusable r"
  by (auto simp add: Response_json_def split: if_splits)

lemma fromResponse_guard_passed:
  assumes "\<not> (200 \<le> response.status r \<and> response.status r < 300)"
    and "Response_json p r = Some b" and "truthy b" and "typeof b = ''object''"
  shows "fromResponse p r =
           Inr (new_HttpError (response.status r)
                  (case own_properties b ''error'' of
                     Some (JStr msg) \<Rightarrow> msg
                   | _ \<Rightarrow> if statusText r \<noteq> [] then statusText r else ''Unknown Error'')
                  (Some b) None)"
proof -
  from assms(2) have "Response_clone r = Inr r"
    by (simp add: json_read_usable Response_clone_def)
  with assms show ?thesis
    by (simp add: fromResponse_def Let_def)
qed

lemma fromResponse_guard_failed:
  assumes "\<not> (200 \<le> response.status r \<and> response.status r < 300)"
    and "Response_json p r = Some b" and "\<not> (truthy b \<and> typeof b = ''object'')"
  shows "fromResponse p r =
           Inr (new_HttpError (response.status r)
                  (if statusText r \<noteq> [] then statusText r else ''Unknown Error'') None None)"
proof -
  from assms(2) have "Response_clone r = Inr r"
    by (simp add: json_read_usable Response_clone_def)
  with assms show ?thesis
    by (auto simp add: fromResponse_def Let_def)
qed

lemma fromResponse_json_rejected:
  assumes "\<not> (200 \<le> response.status r \<and> response.status r < 300)"
    and "\<not> unusable r"
    and "Response_json p r = None"
  shows "fromResponse p r =
           Inr (new_HttpError (response.status r)
                  (case Response_text r of
                     Some t \<Rightarrow>
                       if t \<noteq> [] then t
                       else if statusText r \<noteq> [] then statusText r else ''Unknown Error''
                   | None \<Rightarrow> if statusText r \<noteq> [] then statusText r else ''Unknown Error'')
                  None None)"
proof -
  from assms(2) have "Response_clone r = Inr r"
    by (simp add: Response_clone_def)
  with assms show ?thesis
    by (simp add: fromResponse_def Let_def split: option.splits)
qed

lemma fromResponse_returns:
  assumes "\<not> (200 \<le> response.status r \<and> response.status r < 300)"
    and "\<not> unusable r"
  shows "\<exists>m d. fromResponse p r = Inr (new_HttpError (response.status r) m d None)"
proof (cases "Response_json p r")
  case None
  with assms show ?thesis
    using fromResponse_json_rejected [of r p] by blast
next
  case (Some b)
  show ?thesis
  proof (cases "truthy b \<and> typeof b = ''object''")
    case True
    with assms(1) Some show ?thesis
      using fromResponse_guard_passed [of r p b] by blast
  next
    case False
    with assms(1) Some show ?thesis
      using fromResponse_guard_failed [of r p b] by blast
  qed
qed

lemma fromResponse_value:
  assumes "fromResponse p r = Inr e"
  shows "\<exists>m d. e = new_HttpError (response.status r) m d None"
proof -
  from assms have ns: "\<not> (200 \<le> response.status r \<and> response.status r < 300)"
    by (auto simp add: fromResponse_success_status)
  with assms have "\<not> unusable r"
    by (auto simp add: fromResponse_unusable_body)
  with ns assms show ?thesis
    using fromResponse_returns [of r p] by auto
qed

text \<open>
  A parsed body that is \<^verbatim>\<open>null\<close>, a boolean, a number or a string fails the guard; a
  parsed array passes it, since \<^verbatim>\<open>typeof []\<close> is \<^verbatim>\<open>'object'\<close>, and is stored as
  \<^verbatim>\<open>details\<close>.
\<close>

lemma fromResponse_scalar_body:
  assumes "\<not> (200 \<le> response.status r \<and> response.status r < 300)"
    and "Response_json p r = Some b"
    and "b = JNull \<or> (\<exists>x. b = JBool x) \<or> (\<exists>x. b = JNum x) \<or> (\<exists>x. b = JStr x)"
  shows "fromResponse p r =
           Inr (new_HttpError (response.status r)
                  (if statusText r \<noteq> [] then statusText r else ''Unknown Error'') None None)"
proof -
  from assms(3) have "\<not> (truthy b \<and> typeof b = ''object'')"
    by auto
  with assms(1,2) show ?thesis
    by (rule fromResponse_guard_failed)
qed

lemma fromResponse_array_body:
  assumes "\<not> (200 \<le> response.status r \<and> response.status r < 300)"
    and "Response_json p r = Some (JArr xs)"
  shows "fromResponse p r =
           Inr (new_HttpError (response.status r)
                  (if statusText r \<noteq> [] then statusText r else ''Unknown Error'')
                  (Some (JArr xs)) None)"
  using fromResponse_guard_passed [OF assms]
  by (simp add: array_has_no_error_property del: own_properties.simps)

section \<open>Serialization: \<^verbatim>\<open>toResponse\<close>\<close>

text \<open>
  Claim C1, as the code has it. For every error whose \<^verbatim>\<open>details\<close> is a mapping, the body
  of the response \<^verbatim>\<open>toResponse\<close> returns is the JSON text of the object
  \<^verbatim>\<open>{ error: message, ...details }\<close>, and its \<^verbatim>\<open>error\<close> key holds the value stored
  under \<^verbatim>\<open>error\<close> inside \<^verbatim>\<open>details\<close> when there is one: the spread is written after
  the literal \<^verbatim>\<open>error\<close> entry and replaces it. The key holds the message field only
  when \<^verbatim>\<open>details\<close> has no \<^verbatim>\<open>error\<close> key.
\<close>

theorem toResponse_error_key:
  assumes "details e = Some (JObj d)"
  shows "(\<forall>r. toResponse str e = Inr r \<longrightarrow> body r = Text (str (JObj (toResponse_body e)))) \<and>
         toResponse_body e ''error'' =
           (case d ''error'' of Some v \<Rightarrow> Some v | None \<Rightarrow> Some (JStr (message e)))"
proof
  show "\<forall>r. toResponse str e = Inr r \<longrightarrow> body r = Text (str (JObj (toResponse_body e)))"
    by (simp add: toResponse_result(3))
  show "toResponse_body e ''error'' =
          (case d ''error'' of Some v \<Rightarrow> Some v | None \<Rightarrow> Some (JStr (message e)))"
    using assms by (simp add: toResponse_body_def map_add_def split: option.splits)
qed

theorem toResponse_error_key_witness:
  \<open>toResponse_body
     (new_HttpError 400 ''Bad request'' (Some (JObj [''error'' \<mapsto> JStr ''from details''])) None)
     ''error'' = Some (JStr ''from details'') \<and>
   toResponse_body
     (new_HttpError 401 ''Unauthorized'' (Some (JObj [''code'' \<mapsto> JStr ''AUTH_FAILED''])) None)
     ''error'' = Some (JStr ''Unauthorized'') \<and>
   (\<exists>r. toResponse
          (\<lambda>v. if v = JObj [''error'' \<mapsto> JStr ''from details'']
                then ''{"error":"from details"}'' else ''null'')
          (new_HttpError 400 ''Bad request'' (Some (JObj [''error'' \<mapsto> JStr ''from details''])) None)
        = Inr r \<and> body r = Text ''{"error":"from details"}'')\<close>
proof -
  let ?str = \<open>\<lambda>v. if v = JObj [''error'' \<mapsto> JStr ''from details'']
                    then ''{"error":"from details"}'' else ''null''\<close>
  let ?e = "new_HttpError 400 ''Bad request'' (Some (JObj [''error'' \<mapsto> JStr ''from details''])) None"
  obtain r where r: "toResponse ?str ?e = Inr r"
    using toResponse_without_headers [of ?e ?str] by (auto simp add: new_defs)
  have "toResponse_body ?e = [''error'' \<mapsto> JStr ''from details'']"
    by (simp add: toResponse_body_def new_defs)
  with r show ?thesis
    using
      toResponse_error_key [of ?e "[''error'' \<mapsto> JStr ''from details'']" ?str]
      toResponse_error_key [of
        "new_HttpError 401 ''Unauthorized'' (Some (JObj [''code'' \<mapsto> JStr ''AUTH_FAILED''])) None"
        "[''code'' \<mapsto> JStr ''AUTH_FAILED'']"]
    by (simp add: new_defs)
qed

text \<open>
  The claim as written fails: with \<^verbatim>\<open>details = { error: 'from details' }\<close> the body's
  \<^verbatim>\<open>error\<close> key does not hold the message \<^verbatim>\<open>'Bad request'\<close>.
\<close>

theorem toResponse_message_overridden:
  "toResponse_body
     (new_HttpError 400 ''Bad request'' (Some (JObj [''error'' \<mapsto> JStr ''from details''])) None)
     ''error''
   \<noteq> Some (JStr (message
         (new_HttpError 400 ''Bad request'' (Some (JObj [''error'' \<mapsto> JStr ''from details''])) None)))"
  by (simp add: toResponse_body_def new_defs)






section \<open>Deserialization: \<^verbatim>\<open>fromResponse\<close>\<close>

text \<open>
  Claim C2 fails on the code for a parsed array. The claim says that a body whose parsed
  value is not a JSON object leaves \<^verbatim>\<open>details\<close> absent. The guard
  \<^verbatim>\<open>body && typeof body === 'object'\<close> lets an array through, so \<^verbatim>\<open>fromResponse\<close> on a
  500 response with body \<^verbatim>\<open>[1]\<close> returns an error whose \<^verbatim>\<open>details\<close> is the array
  \<^verbatim>\<open>[1]\<close>; the message does fall back to the reason phrase. (For \<^verbatim>\<open>null\<close>, booleans,
  numbers and strings the claim holds: \<open>fromResponse_scalar_body\<close>. For every array:
  \<open>fromResponse_array_body\<close>.)
\<close>

theorem fromResponse_array_becomes_details:
  "fromResponse (\<lambda>t. if t = ''[1]'' then Some (JArr [JNum 1]) else None)
     \<lparr>response.status = 500, statusText = ''Internal Server Error'',
      response.headers = [], body = Text ''[1]'', bodyUsed = False, locked = False\<rparr>
   = Inr \<lparr>name = ''HttpError'', message = ''Internal Server Error'', status = 500,
          details = Some (JArr [JNum 1]), headers = None\<rparr>"
  by (simp add: fromResponse_def read_defs new_defs decimal.simps digit_def)

text \<open>
  Claim C3, as the code has it. \<^verbatim>\<open>fromResponse\<close> fails exactly when the status of the
  response lies in \<open>[200, 300)\<close> or the body of the response is already used or locked.
  On a status in \<open>[200, 300)\<close> it rejects with the error
  \<^verbatim>\<open>Cannot create HttpError from a successful response (status: <status>)\<close>, the status
  written with its three decimal digits, and returns no value. On any other status and
  a used or locked body, \<^verbatim>\<open>response.clone()\<close> throws a \<^verbatim>\<open>TypeError\<close> outside the
  \<^verbatim>\<open>try\<close> blocks and the promise rejects with it. On any other status and a usable body
  it returns an \<^verbatim>\<open>HttpError\<close>, whatever the body is and whatever the parser does with
  it.
\<close>

theorem fromResponse_fails_iff:
  "isl (fromResponse p r) =
     ((200 \<le> response.status r \<and> response.status r < 300) \<or> unusable r) \<and>
   (200 \<le> response.status r \<and> response.status r < 300 \<longrightarrow>
      fromResponse p r =
        Inl (Error (''Cannot create HttpError from a successful response (status: ''
                    @ [CHR ''2'',
                       ''0123456789'' ! (nat (response.status r) div 10 mod 10),
                       ''0123456789'' ! (nat (response.status r) mod 10)]
                    @ '')''))) \<and>
   (\<not> (200 \<le> response.status r \<and> response.status r < 300) \<and> unusable r \<longrightarrow>
      fromResponse p r = Inl TypeError) \<and>
   (\<not> (200 \<le> response.status r \<and> response.status r < 300) \<and> \<not> unusable r \<longrightarrow>
      (\<exists>e. fromResponse p r = Inr e))"
proof (cases "200 \<le> response.status r \<and> response.status r < 300")
  case True
  then have "Number_toString (response.status r) =
      [CHR ''2'',
       ''0123456789'' ! (nat (response.status r) div 10 mod 10),
       ''0123456789'' ! (nat (response.status r) mod 10)]"
    by (simp add: Number_toString_success_status digit_def)
  with True show ?thesis
    by (simp add: fromResponse_success_status)
next
  case False
  show ?thesis
  proof (cases "unusable r")
    case True
    with False have "fromResponse p r = Inl TypeError"
      by (rule fromResponse_unusable_body)
    with False True show ?thesis
      by auto
  next
    case usable: False
    with False obtain m d where
      "fromResponse p r = Inr (new_HttpError (response.status r) m d None)"
      using fromResponse_returns by blast
    with False usable show ?thesis
      by auto
  qed
qed

theorem fromResponse_fails_iff_witness:
  \<open>fromResponse (\<lambda>t. Some (JObj [''ok'' \<mapsto> JBool True]))
     \<lparr>response.status = 200, statusText = ''OK'', response.headers = [],
      body = Text ''{"ok":true}'', bodyUsed = False, locked = False\<rparr>
     = Inl (Error ''Cannot create HttpError from a successful response (status: 200)'') \<and>
   fromResponse (\<lambda>t. None)
     \<lparr>response.status = 204, statusText = ''No Content'', response.headers = [],
      body = Text [], bodyUsed = True, locked = False\<rparr>
     = Inl (Error ''Cannot create HttpError from a successful response (status: 204)'') \<and>
   fromResponse (\<lambda>t. None)
     \<lparr>response.status = 299, statusText = [], response.headers = [],
      body = ReadError, bodyUsed = False, locked = False\<rparr>
     = Inl (Error ''Cannot create HttpError from a successful response (status: 299)'') \<and>
   fromResponse (\<lambda>t. None)
     \<lparr>response.status = 404, statusText = ''Not Found'', response.headers = [],
      body = Text ''gone'', bodyUsed = False, locked = True\<rparr>
     = Inl TypeError \<and>
   (\<exists>e. fromResponse (\<lambda>t. None)
     \<lparr>response.status = 300, statusText = [], response.headers = [],
      body = ReadError, bodyUsed = False, locked = False\<rparr> = Inr e) \<and>
   (\<exists>e. fromResponse (\<lambda>t. Some (JObj [''ok'' \<mapsto> JBool True]))
     \<lparr>response.status = 199, statusText = [], response.headers = [],
      body = Text ''{"ok":true}'', bodyUsed = False, locked = False\<rparr> = Inr e)\<close>
  using
    fromResponse_fails_iff [of \<open>\<lambda>t. Some (JObj [''ok'' \<mapsto> JBool True])\<close>
     \<open>\<lparr>response.status = 200, statusText = ''OK'', response.headers = [],
      body = Text ''{"ok":true}'', bodyUsed = False, locked = False\<rparr>\<close>]
    fromResponse_fails_iff [of \<open>\<lambda>t. None\<close>
     \<open>\<lparr>response.status = 204, statusText = ''No Content'', response.headers = [],
      body = Text [], bodyUsed = True, locked = False\<rparr>\<close>]
    fromResponse_fails_iff [of \<open>\<lambda>t. None\<close>
     \<open>\<lparr>response.status = 299, statusText = [], response.headers = [],
      body = ReadError, bodyUsed = False, locked = False\<rparr>\<close>]
    fromResponse_fails_iff [of \<open>\<lambda>t. None\<close>
     \<open>\<lparr>response.status = 404, statusText = ''Not Found'', response.headers = [],
      body = Text ''gone'', bodyUsed = False, locked = True\<rparr>\<close>]
    fromResponse_fails_iff [of \<open>\<lambda>t. None\<close>
     \<open>\<lparr>response.status = 300, statusText = [], response.headers = [],
      body = ReadError, bodyUsed = False, locked = False\<rparr>\<close>]
    fromResponse_fails_iff [of \<open>\<lambda>t. Some (JObj [''ok'' \<mapsto> JBool True])\<close>
     \<open>\<lparr>response.status = 199, statusText = [], response.headers = [],
      body = Text ''{"ok":true}'', bodyUsed = False, locked = False\<rparr>\<close>]
  by (simp add: unusable_def)

text \<open>
  The claim as written fails: a 500 response whose body has already been read is not a
  success response, and \<^verbatim>\<open>fromResponse\<close> rejects with the \<^verbatim>\<open>TypeError\<close> of
  \<^verbatim>\<open>response.clone()\<close> instead of returning an \<^verbatim>\<open>HttpError\<close>.
\<close>

theorem fromResponse_used_body_rejects:
  "fromResponse (\<lambda>t. None)
     \<lparr>response.status = 500, statusText = ''Internal Server Error'', response.headers = [],
      body = Text ''Something went wrong'', bodyUsed = True, locked = False\<rparr>
   = Inl TypeError"
  by (simp add: fromResponse_def read_defs)

text \<open>
  Claim C5. For every non-success response whose body parses as a JSON object, the
  message of the returned error is the value of the object's \<^verbatim>\<open>error\<close> key when that
  value is a string, and otherwise the reason phrase, or \<^verbatim>\<open>Unknown Error\<close> when the reason
  phrase is empty; the \<^verbatim>\<open>details\<close> are the whole parsed object as it is, its \<^verbatim>\<open>error\<close>
  key included.
\<close>

theorem fromResponse_json_object:
  assumes "\<not> (200 \<le> response.status r \<and> response.status r < 300)"
    and "Response_json p r = Some (JObj obj)"
  shows "\<exists>e. fromResponse p r = Inr e \<and>
           message e =
             (case obj ''error'' of
                Some (JStr msg) \<Rightarrow> msg
              | _ \<Rightarrow> if statusText r \<noteq> [] then statusText r else ''Unknown Error'') \<and>
           details e = Some (JObj obj)"
proof -
  have "truthy (JObj obj)" and "typeof (JObj obj) = ''object''"
    by simp_all
  with assms have "fromResponse p r =
      Inr (new_HttpError (response.status r)
             (case own_properties (JObj obj) ''error'' of
                Some (JStr msg) \<Rightarrow> msg
              | _ \<Rightarrow> if statusText r \<noteq> [] then statusText r else ''Unknown Error'')
             (Some (JObj obj)) None)"
    by (rule fromResponse_guard_passed)
  then show ?thesis
    by (simp add: new_defs)
qed

theorem fromResponse_json_object_witness:
  \<open>(\<exists>e. fromResponse
          (\<lambda>t. if t = ''{"error":"Bad request","field":"email"}''
                then Some (JObj [''error'' \<mapsto> JStr ''Bad request'', ''field'' \<mapsto> JStr ''email''])
                else None)
          \<lparr>response.status = 400, statusText = [],
           response.headers = [(''content-type'', ''application/json'')],
           body = Text ''{"error":"Bad request","field":"email"}'',
           bodyUsed = False, locked = False\<rparr> = Inr e \<and>
        message e = ''Bad request'' \<and>
        details e = Some (JObj [''error'' \<mapsto> JStr ''Bad request'', ''field'' \<mapsto> JStr ''email''])) \<and>
   (\<exists>e. fromResponse
          (\<lambda>t. if t = ''{"code":"INVALID","error":7}''
                then Some (JObj [''code'' \<mapsto> JStr ''INVALID'', ''error'' \<mapsto> JNum 7])
                else None)
          \<lparr>response.status = 422, statusText = ''Unprocessable Entity'',
           response.headers = [],
           body = Text ''{"code":"INVALID","error":7}'',
           bodyUsed = False, locked = False\<rparr> = Inr e \<and>
        message e = ''Unprocessable Entity'' \<and>
        details e = Some (JObj [''code'' \<mapsto> JStr ''INVALID'', ''error'' \<mapsto> JNum 7])) \<and>
   (\<exists>e. fromResponse (\<lambda>t. if t = ''{}'' then Some (JObj Map.empty) else None)
          \<lparr>response.status = 503, statusText = [], response.headers = [],
           body = Text ''{}'', bodyUsed = False, locked = False\<rparr> = Inr e \<and>
        message e = ''Unknown Error'' \<and> details e = Some (JObj Map.empty))\<close>
  using
    fromResponse_json_object [of
      \<open>\<lparr>response.status = 400, statusText = [],
        response.headers = [(''content-type'', ''application/json'')],
        body = Text ''{"error":"Bad request","field":"email"}'',
        bodyUsed = False, locked = False\<rparr>\<close>
      \<open>\<lambda>t. if t = ''{"error":"Bad request","field":"email"}''
           then Some (JObj [''error'' \<mapsto> JStr ''Bad request'', ''field'' \<mapsto> JStr ''email''])
           else None\<close>
      \<open>[''error'' \<mapsto> JStr ''Bad request'', ''field'' \<mapsto> JStr ''email'']\<close>]
    fromResponse_json_object [of
      \<open>\<lparr>response.status = 422, statusText = ''Unprocessable Entity'',
        response.headers = [],
        body = Text ''{"code":"INVALID","error":7}'',
        bodyUsed = False, locked = False\<rparr>\<close>
      \<open>\<lambda>t. if t = ''{"code":"INVALID","error":7}''
           then Some (JObj [''code'' \<mapsto> JStr ''INVALID'', ''error'' \<mapsto> JNum 7])
           else None\<close>
      \<open>[''code'' \<mapsto> JStr ''INVALID'', ''error'' \<mapsto> JNum 7]\<close>]
    fromResponse_json_object [of
      \<open>\<lparr>response.status = 503, statusText = [], response.headers = [],
        body = Text ''{}'', bodyUsed = False, locked = False\<rparr>\<close>
      \<open>\<lambda>t. if t = ''{}'' then Some (JObj Map.empty) else None\<close>
      \<open>Map.empty\<close>]
  by (simp add: Response_json_def unusable_def)

text \<open>
  Claim C6. For every non-success response whose body does not parse as JSON
  (\<^verbatim>\<open>response.json()\<close> rejects once the clone is made), the preserved copy is read as
  text. A non-empty text is the message as it is; when the text is empty or the read
  fails, the message is the reason phrase, or \<^verbatim>\<open>Unknown Error\<close> when the reason phrase is
  empty. In every case \<^verbatim>\<open>fromResponse\<close> returns a value, with \<^verbatim>\<open>details\<close> absent: the
  failed read is not propagated.
\<close>

theorem fromResponse_text_fallback:
  assumes "\<not> (200 \<le> response.status r \<and> response.status r < 300)"
    and "\<not> unusable r"
    and "Response_json p r = None"
  shows "\<exists>e. fromResponse p r = Inr e \<and> details e = None \<and>
           message e =
             (case body r of
                Text t \<Rightarrow>
                  if t \<noteq> [] then t
                  else if statusText r \<noteq> [] then statusText r else ''Unknown Error''
              | ReadError \<Rightarrow> if statusText r \<noteq> [] then statusText r else ''Unknown Error'')"
proof (cases "body r")
  case (Text t)
  with assms(2) have "Response_text r = Some t"
    by (simp add: Response_text_def)
  with Text show ?thesis
    by (simp add: fromResponse_json_rejected [OF assms] new_defs)
next
  case ReadError
  with assms(2) have "Response_text r = None"
    by (simp add: Response_text_def)
  with ReadError show ?thesis
    by (simp add: fromResponse_json_rejected [OF assms] new_defs)
qed

theorem fromResponse_text_fallback_witness:
  "(\<exists>e. fromResponse (\<lambda>t. None)
          \<lparr>response.status = 500, statusText = [], response.headers = [],
           body = Text ''Something went wrong'', bodyUsed = False, locked = False\<rparr> = Inr e \<and>
        details e = None \<and> message e = ''Something went wrong'') \<and>
   (\<exists>e. fromResponse (\<lambda>t. None)
          \<lparr>response.status = 404, statusText = ''Not Found'', response.headers = [],
           body = Text [], bodyUsed = False, locked = False\<rparr> = Inr e \<and>
        details e = None \<and> message e = ''Not Found'') \<and>
   (\<exists>e. fromResponse (\<lambda>t. None)
          \<lparr>response.status = 502, statusText = [], response.headers = [],
           body = ReadError, bodyUsed = False, locked = False\<rparr> = Inr e \<and>
        details e = None \<and> message e = ''Unknown Error'')"
  using
    fromResponse_text_fallback [of
      "\<lparr>response.status = 500, statusText = [], response.headers = [],
        body = Text ''Something went wrong'', bodyUsed = False, locked = False\<rparr>" "\<lambda>t. None"]
    fromResponse_text_fallback [of
      "\<lparr>response.status = 404, statusText = ''Not Found'', response.headers = [],
        body = Text [], bodyUsed = False, locked = False\<rparr>" "\<lambda>t. None"]
    fromResponse_text_fallback [of
      "\<lparr>response.status = 502, statusText = [], response.headers = [],
        body = ReadError, bodyUsed = False, locked = False\<rparr>" "\<lambda>t. None"]
  by (simp add: Response_json_def unusable_def)

text \<open>
  Claim C9. Every error \<^verbatim>\<open>fromResponse\<close> returns has the status of the response,
  whatever it is (0, a negative number, 1xx and 3xx included), and no headers; and
  \<^verbatim>\<open>fromResponse\<close> returns one for every response with a non-success status and a
  usable body.
\<close>

theorem fromResponse_status_and_headers:
  "(\<forall>e. fromResponse p r = Inr e \<longrightarrow>
      HttpError.status e = response.status r \<and> HttpError.headers e = None) \<and>
   (\<not> (200 \<le> response.status r \<and> response.status r < 300) \<and> \<not> unusable r \<longrightarrow>
      (\<exists>e. fromResponse p r = Inr e \<and>
           HttpError.status e = response.status r \<and> HttpError.headers e = None))"
proof -
  have returned: "\<forall>e. fromResponse p r = Inr e \<longrightarrow>
      HttpError.status e = response.status r \<and> HttpError.headers e = None"
  proof (intro allI impI)
    fix e
    assume "fromResponse p r = Inr e"
    then obtain m d where "e = new_HttpError (response.status r) m d None"
      using fromResponse_value by blast
    then show "HttpError.status e = response.status r \<and> HttpError.headers e = None"
      by (simp add: new_defs)
  qed
  have "\<exists>e. fromResponse p r = Inr e"
    if "\<not> (200 \<le> response.status r \<and> response.status r < 300)" and "\<not> unusable r"
    using fromResponse_returns [OF that] by blast
  with returned show ?thesis
    by blast
qed

theorem fromResponse_status_and_headers_witness:
  "(\<exists>e. fromResponse (\<lambda>t. None)
          \<lparr>response.status = 0, statusText = [],
           response.headers = [(''content-type'', ''text/plain'')], body = Text ''offline'',
           bodyUsed = False, locked = False\<rparr>
          = Inr e \<and> HttpError.status e = 0 \<and> HttpError.headers e = None) \<and>
   (\<exists>e. fromResponse (\<lambda>t. None)
          \<lparr>response.status = - 1, statusText = [], response.headers = [],
           body = ReadError, bodyUsed = False, locked = False\<rparr>
          = Inr e \<and> HttpError.status e = - 1 \<and> HttpError.headers e = None) \<and>
   (\<exists>e. fromResponse (\<lambda>t. Some (JObj Map.empty))
          \<lparr>response.status = 101, statusText = ''Switching Protocols'',
           response.headers = [], body = Text ''{}'', bodyUsed = False, locked = False\<rparr>
          = Inr e \<and> HttpError.status e = 101 \<and> HttpError.headers e = None) \<and>
   (\<exists>e. fromResponse (\<lambda>t. Some JNull)
          \<lparr>response.status = 302, statusText = ''Found'',
           response.headers = [(''location'', ''/login'')], body = Text ''null'',
           bodyUsed = False, locked = False\<rparr>
          = Inr e \<and> HttpError.status e = 302 \<and> HttpError.headers e = None)"
  using
    fromResponse_status_and_headers [of "\<lambda>t. None"
      "\<lparr>response.status = 0, statusText = [],
        response.headers = [(''content-type'', ''text/plain'')], body = Text ''offline'',
        bodyUsed = False, locked = False\<rparr>"]
    fromResponse_status_and_headers [of "\<lambda>t. None"
      "\<lparr>response.status = - 1, statusText = [], response.headers = [],
        body = ReadError, bodyUsed = False, locked = False\<rparr>"]
    fromResponse_status_and_headers [of "\<lambda>t. Some (JObj Map.empty)"
      "\<lparr>response.status = 101, statusText = ''Switching Protocols'',
        response.headers = [], body = Text ''{}'', bodyUsed = False, locked = False\<rparr>"]
    fromResponse_status_and_headers [of "\<lambda>t. Some JNull"
      "\<lparr>response.status = 302, statusText = ''Found'',
        response.headers = [(''location'', ''/login'')], body = Text ''null'',
        bodyUsed = False, locked = False\<rparr>"]
  by (simp add: unusable_def)

section \<open>Round trip\<close>

text \<open>
  Claim C4. For every status in \<open>[400, 599]\<close>, every message and every details mapping
  with no \<^verbatim>\<open>error\<close> key, \<^verbatim>\<open>new HttpError(status, message, details).toResponse()\<close>
  returns a response, and \<^verbatim>\<open>fromResponse\<close> of it returns an error with the original
  status, the original message, and the details \<^verbatim>\<open>{ error: message, ...details }\<close>. The
  same holds of every response \<^verbatim>\<open>toResponse\<close> returns when the error has headers. The
  host's \<^verbatim>\<open>JSON.parse\<close> is taken to read back the object that \<^verbatim>\<open>JSON.stringify\<close> wrote
  for this body.
\<close>

theorem fromResponse_toResponse_roundtrip:
  assumes "400 \<le> s" and "s \<le> 599"
    and "d ''error'' = None"
    and "JSON_parse (JSON_stringify (JObj ([''error'' \<mapsto> JStr m] ++ d))) =
           Some (JObj ([''error'' \<mapsto> JStr m] ++ d))"
  shows "(\<exists>r. toResponse JSON_stringify (new_HttpError s m (Some (JObj d)) None) = Inr r) \<and>
         (\<forall>r. toResponse JSON_stringify (new_HttpError s m (Some (JObj d)) h) = Inr r \<longrightarrow>
            (\<exists>e. fromResponse JSON_parse r = Inr e \<and>
                 HttpError.status e = s \<and> message e = m \<and>
                 details e = Some (JObj ([''error'' \<mapsto> JStr m] ++ d))))"
proof (intro conjI allI impI)
  show "\<exists>r. toResponse JSON_stringify (new_HttpError s m (Some (JObj d)) None) = Inr r"
    using assms(1,2) by (intro toResponse_without_headers) (simp_all add: new_defs)
next
  fix r
  let ?e = "new_HttpError s m (Some (JObj d)) h"
  let ?b = "[''error'' \<mapsto> JStr m] ++ d"
  assume r: "toResponse JSON_stringify ?e = Inr r"
  have b: "toResponse_body ?e = ?b"
    by (simp add: toResponse_body_def new_defs)
  from assms(1,2) have "s mod 65536 = s"
    by simp
  with toResponse_result(1) [OF r] have st: "response.status r = s"
    by (simp add: new_defs)
  have js: "Response_json JSON_parse r = Some (JObj ?b)"
    using assms(4) toResponse_result(3,4) [OF r] by (simp add: Response_json_def b)
  have er: "?b ''error'' = Some (JStr m)"
    using assms(3) by (simp add: map_add_def)
  from assms(1) st have "\<not> (200 \<le> response.status r \<and> response.status r < 300)"
    by simp
  then have "fromResponse JSON_parse r =
      Inr (new_HttpError (response.status r)
             (case own_properties (JObj ?b) ''error'' of
                Some (JStr msg) \<Rightarrow> msg
              | _ \<Rightarrow> if statusText r \<noteq> [] then statusText r else ''Unknown Error'')
             (Some (JObj ?b)) None)"
    using js by (rule fromResponse_guard_passed) simp_all
  with er st show "\<exists>e. fromResponse JSON_parse r = Inr e \<and>
      HttpError.status e = s \<and> message e = m \<and> details e = Some (JObj ?b)"
    by (simp add: new_defs)
qed

theorem fromResponse_toResponse_roundtrip_witness:
  \<open>\<exists>r. toResponse
         (\<lambda>v. if v = JObj [''error'' \<mapsto> JStr ''Not found'', ''resource'' \<mapsto> JStr ''user'']
               then ''{"error":"Not found","resource":"user"}'' else ''null'')
         (new_HttpError 404 ''Not found'' (Some (JObj [''resource'' \<mapsto> JStr ''user''])) None)
       = Inr r \<and>
       (\<exists>e. fromResponse
              (\<lambda>t. if t = ''{"error":"Not found","resource":"user"}''
                    then Some (JObj [''error'' \<mapsto> JStr ''Not found'',
                                     ''resource'' \<mapsto> JStr ''user''])
                    else None) r = Inr e \<and>
            HttpError.status e = 404 \<and> message e = ''Not found'' \<and>
            details e =
              Some (JObj [''error'' \<mapsto> JStr ''Not found'', ''resource'' \<mapsto> JStr ''user'']))\<close>
  using fromResponse_toResponse_roundtrip [of 404 \<open>[''resource'' \<mapsto> JStr ''user'']\<close>
      \<open>\<lambda>t. if t = ''{"error":"Not found","resource":"user"}''
           then Some (JObj [''error'' \<mapsto> JStr ''Not found'', ''resource'' \<mapsto> JStr ''user''])
           else None\<close>
      \<open>\<lambda>v. if v = JObj [''error'' \<mapsto> JStr ''Not found'', ''resource'' \<mapsto> JStr ''user'']
           then ''{"error":"Not found","resource":"user"}'' else ''null''\<close>
      \<open>''Not found''\<close> None]
  by auto

section \<open>The name of an error\<close>

text \<open>
  Claim C10. Every value carries the name of the class it was constructed as:
  \<^verbatim>\<open>HttpError\<close> for a value of \<^verbatim>\<open>new HttpError(...)\<close> and for every value
  \<^verbatim>\<open>fromResponse\<close> returns, \<^verbatim>\<open>MissingFieldError\<close> for a value of
  \<^verbatim>\<open>new MissingFieldError(...)\<close>. The constructors and \<^verbatim>\<open>fromResponse\<close> are the only
  operations that yield an error value; \<^verbatim>\<open>toResponse\<close> reads one and yields a response,
  so no operation gives a constructed value another name.
\<close>

theorem error_name_of_class:
  "name (new_HttpError s m d h) = ''HttpError'' \<and>
   name (new_MissingFieldError fieldName h') = ''MissingFieldError'' \<and>
   (\<forall>e. fromResponse p r = Inr e \<longrightarrow> name e = ''HttpError'')"
proof (intro conjI allI impI)
  show "name (new_HttpError s m d h) = ''HttpError''"
    by (simp add: new_defs)
  show "name (new_MissingFieldError fieldName h') = ''MissingFieldError''"
    by (simp add: new_defs)
next
  fix e
  assume "fromResponse p r = Inr e"
  then obtain m' d' where "e = new_HttpError (response.status r) m' d' None"
    using fromResponse_value by blast
  then show "name e = ''HttpError''"
    by (simp add: new_defs)
qed

theorem error_name_of_class_witness:
  "name (new_HttpError 404 ''Not found'' None None) = ''HttpError'' \<and>
   name (new_MissingFieldError ''email'' None) = ''MissingFieldError'' \<and>
   fromResponse (\<lambda>t. None)
     \<lparr>response.status = 500, statusText = [], response.headers = [],
      body = Text ''Something went wrong'', bodyUsed = False, locked = False\<rparr>
     = Inr \<lparr>name = ''HttpError'', message = ''Something went wrong'', status = 500,
            details = None, headers = None\<rparr> \<and>
   name \<lparr>name = ''HttpError'', message = ''Something went wrong'', status = 500,
         details = None, headers = None\<rparr> = ''HttpError''"
  using error_name_of_class [of 404 "''Not found''" None None "''email''" None "\<lambda>t. None"
      "\<lparr>response.status = 500, statusText = [], response.headers = [],
        body = Text ''Something went wrong'', bodyUsed = False, locked = False\<rparr>"]
  by (simp add: fromResponse_def read_defs new_defs)

end
